theory Spec2Isabelle
  imports Main "HOL-Library.Word"
begin

section \<open>Bytes, buffers and the constants of the header\<close>

type_synonym byte = "8 word"
type_synonym bytes = "byte list"

text \<open>\<^verbatim>\<open>secp256k1_wrapper.h\<close>: the three sizes fixed by \<^verbatim>\<open>#define\<close>.\<close>

definition PRIVKEY_SIZE :: nat where
  "PRIVKEY_SIZE = 32"

definition PUBKEY_COMPRESSION_SIZE :: nat where
  "PUBKEY_COMPRESSION_SIZE = 33"

definition PUBKEY_UNCOMPRESSION_SIZE :: nat where
  "PUBKEY_UNCOMPRESSION_SIZE = 65"

text \<open>
  Constants of headers that are not part of the repository: the serialisation flags of
  \<^verbatim>\<open>secp256k1.h\<close> (\<^verbatim>\<open>(1 << 1) | (1 << 8)\<close> and \<^verbatim>\<open>(1 << 1)\<close>) and the Linux value of
  \<^verbatim>\<open>ENOSYS\<close> from \<^verbatim>\<open>errno.h\<close>.
\<close>

definition SECP256K1_EC_COMPRESSED :: int where
  "SECP256K1_EC_COMPRESSED = 258"

definition SECP256K1_EC_UNCOMPRESSED :: int where
  "SECP256K1_EC_UNCOMPRESSED = 2"

definition ENOSYS :: int where
  "ENOSYS = 38"

text \<open>
  A buffer is the list of its bytes. Writing \<open>w\<close> at the start of a buffer replaces its
  first \<open>length w\<close> bytes; writing at offset \<open>off\<close> replaces the bytes from there on.
\<close>

definition poke :: "bytes \<Rightarrow> nat \<Rightarrow> bytes \<Rightarrow> bytes" where
  "poke buf off w = take off buf @ w @ drop (off + length w) buf"

text \<open>\<^verbatim>\<open>memcpy(dst, src, n)\<close> and \<^verbatim>\<open>secure_memzero(p, n)\<close> (every platform branch of the
  latter stores \<open>n\<close> zero bytes at \<open>p\<close>).\<close>

definition memcpy :: "bytes \<Rightarrow> bytes \<Rightarrow> nat \<Rightarrow> bytes" where
  "memcpy dst src n = poke dst 0 (take n src)"

definition secure_memzero :: "bytes \<Rightarrow> nat \<Rightarrow> bytes" where
  "secure_memzero p n = poke p 0 (replicate n 0)"

section \<open>The environment: operating system and curve library\<close>

text \<open>
  Every call that leaves the wrapper is recorded in a trace, in program order. The
  environment answers a call from the moment it is made (the length of the trace so
  far), so that two calls of the same function may be answered differently.
\<close>

datatype event =
  ContextCreate | ContextRandomize | ContextDestroy
| Getrandom | Open | Read | Close

text \<open>
  \<^verbatim>\<open>getrandom\<close> either fails (result \<open>-1\<close>, with an \<^verbatim>\<open>errno\<close>) or delivers some bytes;
  \<^verbatim>\<open>read\<close> either fails (result \<open>-1\<close>) or delivers some bytes, none at end of file.
\<close>

datatype getrandom_res = GetrandomErr int | GetrandomOk bytes

datatype read_res = ReadErr | ReadOk bytes

text \<open>
  The curve library (libsecp256k1) is an external collaborator; its functions are
  parameters of the model, with the arguments the wrapper passes: the context, the key,
  the point, the output length and the flags. \<open>'c\<close> is the type of contexts and \<open>'p\<close> the
  type of \<^verbatim>\<open>secp256k1_pubkey\<close> values. A function that reports failure by returning 0
  gives \<open>None\<close> (or \<open>False\<close>); serialisation also gives the bytes it stored in the output
  buffer, whatever it returns. \<open>stack\<close> is the content of the uninitialised stack memory
  in which a function's local arrays are allocated.
\<close>

record ('c, 'p) env =
  context_create :: "nat \<Rightarrow> 'c option"
  context_randomize :: "'c \<Rightarrow> bytes \<Rightarrow> 'c option"
  ec_seckey_verify :: "'c \<Rightarrow> bytes \<Rightarrow> bool"
  ec_pubkey_create :: "'c \<Rightarrow> bytes \<Rightarrow> 'p option"
  ec_pubkey_serialize :: "'c \<Rightarrow> 'p \<Rightarrow> nat \<Rightarrow> int \<Rightarrow> bool \<times> bytes"
  sys_getrandom :: "nat \<Rightarrow> nat \<Rightarrow> getrandom_res"
  sys_open :: "nat \<Rightarrow> int"
  sys_read :: "nat \<Rightarrow> int \<Rightarrow> nat \<Rightarrow> read_res"
  stack :: "nat \<Rightarrow> byte"

text \<open>
  The system calls as C sees them. \<^verbatim>\<open>getrandom(data, size, 0)\<close> gives the result, the
  \<^verbatim>\<open>errno\<close> (read only after a result of \<open>-1\<close>) and the buffer; the kernel stores at most
  \<open>size\<close> bytes. \<^verbatim>\<open>read(fd, data + off, count)\<close> stores at most \<open>count\<close> bytes.
  The C parameter \<^verbatim>\<open>size\<close> is written \<open>sz\<close>.
\<close>

definition getrandom ::
  "('c, 'p) env \<Rightarrow> event list \<Rightarrow> bytes \<Rightarrow> nat \<Rightarrow> (int \<times> int) \<times> bytes \<times> event list" where
  "getrandom env tr data sz =
     (case sys_getrandom env (length tr) sz of
        GetrandomErr e \<Rightarrow> ((- 1, e), data, tr @ [Getrandom])
      | GetrandomOk bs \<Rightarrow>
          (let w = take sz bs
           in ((int (length w), 0), poke data 0 w, tr @ [Getrandom])))"

definition open_urandom :: "('c, 'p) env \<Rightarrow> event list \<Rightarrow> int \<times> event list" where
  "open_urandom env tr = (sys_open env (length tr), tr @ [Open])"

definition read_fd ::
  "('c, 'p) env \<Rightarrow> event list \<Rightarrow> int \<Rightarrow> bytes \<Rightarrow> nat \<Rightarrow> nat \<Rightarrow> int \<times> bytes \<times> event list" where
  "read_fd env tr fd data off count =
     (case sys_read env (length tr) fd count of
        ReadErr \<Rightarrow> (- 1, data, tr @ [Read])
      | ReadOk bs \<Rightarrow>
          (let w = take count bs
           in (int (length w), poke data off w, tr @ [Read])))"

section \<open>\<^verbatim>\<open>secp256k1_wrapper_fill_random\<close>, Linux and FreeBSD branch\<close>

text \<open>
  The function has one body per platform, chosen by the preprocessor; this is the body
  for \<^verbatim>\<open>__linux__\<close> and \<^verbatim>\<open>__FreeBSD__\<close>, the only one with a fallback.

  The loop \<^verbatim>\<open>while (off < size)\<close> of the fallback, with \<^verbatim>\<open>close(fd)\<close> on both ways out.
  The result is the returned value, the final \<open>off\<close>, the buffer and the trace.
\<close>

function read_loop ::
  "('c, 'p) env \<Rightarrow> int \<Rightarrow> nat \<Rightarrow> nat \<Rightarrow> bytes \<Rightarrow> event list
     \<Rightarrow> int \<times> nat \<times> bytes \<times> event list" where
  "read_loop env fd sz off data tr =
     (if off < sz then
        (case read_fd env tr fd data off (sz - off) of
           (r, data', tr') \<Rightarrow>
             if r \<le> 0 then (0, off, data', tr' @ [Close])
             else read_loop env fd sz (off + nat r) data' tr')
      else (1, off, data, tr @ [Close]))"
  by pat_completeness auto
termination
  by (relation "measure (\<lambda>(env, fd, sz, off, data, tr). sz - off)") auto

declare read_loop.simps [simp del]

definition fill_random ::
  "('c, 'p) env \<Rightarrow> bytes \<Rightarrow> nat \<Rightarrow> event list \<Rightarrow> int \<times> bytes \<times> event list" where
  "fill_random env data sz tr =
     (case getrandom env tr data sz of
        ((res, errno), data1, tr1) \<Rightarrow>
          if res = - 1 \<and> errno = ENOSYS then
            (case open_urandom env tr1 of
               (fd, tr2) \<Rightarrow>
                 if fd < 0 then (0, data1, tr2)
                 else (case read_loop env fd sz 0 data1 tr2 of
                         (ret, off, data2, tr3) \<Rightarrow> (ret, data2, tr3)))
          else ((if 0 \<le> res \<and> nat res = sz then 1 else 0), data1, tr1))"

section \<open>\<^verbatim>\<open>secp256k1_wrapper_generate_keys\<close>\<close>

text \<open>
  The memory the function can touch, as it is when the function returns: the caller's two
  buffers (\<open>None\<close> for a null pointer), the local arrays \<^verbatim>\<open>randomize\<close> and \<^verbatim>\<open>privkey\<close>,
  and the trace. The two caller buffers are separate objects, as the header's contract
  of two pre-allocated output buffers has it.
\<close>

record gen_frame =
  g_privkey_out :: "bytes option"
  g_pubkey_out :: "bytes option"
  g_randomize :: bytes
  g_privkey :: bytes
  g_trace :: "event list"

text \<open>
  The \<^verbatim>\<open>do ... while\<close> loop that draws candidates. It ends when a draw fails (\<open>False\<close>)
  or when the library accepts the candidate (\<open>True\<close>); nothing bounds the number of
  rejected candidates, so the loop is a partial function.
\<close>

partial_function (option) candidate_loop ::
  "('c, 'p) env \<Rightarrow> 'c \<Rightarrow> bytes \<Rightarrow> event list \<Rightarrow> (bool \<times> bytes \<times> event list) option" where
  "candidate_loop env ctx privkey tr =
     (case fill_random env privkey PRIVKEY_SIZE tr of
        (filled, privkey', tr') \<Rightarrow>
          if filled = 0 then Some (False, privkey', tr')
          else if \<not> ec_seckey_verify env ctx privkey' then candidate_loop env ctx privkey' tr'
          else Some (True, privkey', tr'))"

declare candidate_loop.simps [code]

definition generate_keys ::
  "('c, 'p) env \<Rightarrow> bytes option \<Rightarrow> bytes option \<Rightarrow> int \<Rightarrow> event list
     \<Rightarrow> (int \<times> gen_frame) option" where
  "generate_keys env privkey_out pubkey_out compressed tr =
     (let randomize = map (stack env) [0 ..< PRIVKEY_SIZE];
          privkey = map (stack env) [PRIVKEY_SIZE ..< 2 * PRIVKEY_SIZE];
          fr = \<lparr>g_privkey_out = privkey_out, g_pubkey_out = pubkey_out,
                g_randomize = randomize, g_privkey = privkey, g_trace = tr\<rparr>
      in
      if privkey_out = None \<or> pubkey_out = None \<or> (compressed \<noteq> 0 \<and> compressed \<noteq> 1)
      then Some (- 1, fr)
      else
        let pubkey_len = (if compressed \<noteq> 0 then PUBKEY_COMPRESSION_SIZE
                          else PUBKEY_UNCOMPRESSION_SIZE);
            flags = (if compressed \<noteq> 0 then SECP256K1_EC_COMPRESSED
                     else SECP256K1_EC_UNCOMPRESSED);
            tr1 = tr @ [ContextCreate]
        in
        (case context_create env (length tr) of
           None \<Rightarrow> Some (- 2, fr\<lparr>g_trace := tr1\<rparr>)
         | Some ctx0 \<Rightarrow>
             (case fill_random env randomize PRIVKEY_SIZE tr1 of
                (filled, randomize1, tr2) \<Rightarrow>
                  if filled = 0
                  then Some (- 3, fr\<lparr>g_randomize := randomize1,
                                      g_trace := tr2 @ [ContextDestroy]\<rparr>)
                  else
                    (case context_randomize env ctx0 randomize1 of
                       None \<Rightarrow>
                         Some (- 2, fr\<lparr>g_randomize := secure_memzero randomize1 PRIVKEY_SIZE,
                                        g_trace := tr2 @ [ContextRandomize, ContextDestroy]\<rparr>)
                     | Some ctx \<Rightarrow>
                         (let fr1 = fr\<lparr>g_randomize := secure_memzero randomize1 PRIVKEY_SIZE\<rparr>
                          in
                          case candidate_loop env ctx privkey (tr2 @ [ContextRandomize]) of
                            None \<Rightarrow> None
                          | Some (accepted, privkey1, tr3) \<Rightarrow>
                              if \<not> accepted
                              then Some (- 3, fr1\<lparr>g_privkey := privkey1,
                                                   g_trace := tr3 @ [ContextDestroy]\<rparr>)
                              else
                                (case ec_pubkey_create env ctx privkey1 of
                                   None \<Rightarrow>
                                     Some (- 5, fr1\<lparr>g_privkey := secure_memzero privkey1 PRIVKEY_SIZE,
                                                     g_trace := tr3 @ [ContextDestroy]\<rparr>)
                                 | Some pubkey \<Rightarrow>
                                     (case ec_pubkey_serialize env ctx pubkey pubkey_len flags of
                                        (serialized, out) \<Rightarrow>
                                          let pubkey_out1 =
                                                map_option (\<lambda>b. poke b 0 (take pubkey_len out)) pubkey_out
                                          in
                                          if \<not> serialized
                                          then Some (- 5, fr1\<lparr>g_pubkey_out := pubkey_out1,
                                                               g_privkey := secure_memzero privkey1 PRIVKEY_SIZE,
                                                               g_trace := tr3 @ [ContextDestroy]\<rparr>)
                                          else Some (0, fr1\<lparr>g_privkey_out :=
                                                               map_option (\<lambda>b. memcpy b privkey1 PRIVKEY_SIZE) privkey_out,
                                                             g_pubkey_out := pubkey_out1,
                                                             g_privkey := secure_memzero privkey1 PRIVKEY_SIZE,
                                                             g_trace := tr3 @ [ContextDestroy]\<rparr>))))))))"

section \<open>\<^verbatim>\<open>secp256k1_wrapper_derive_pubkey\<close>\<close>

text \<open>
  First the function as it acts on two buffers that are separate objects: the caller's
  two buffers and the trace when the function returns. The library reads the
  \<^verbatim>\<open>PRIVKEY_SIZE\<close> bytes at \<^verbatim>\<open>privkey\<close>.
\<close>

record der_frame =
  d_privkey :: "bytes option"
  d_pubkey_out :: "bytes option"
  d_trace :: "event list"

definition derive_pubkey ::
  "('c, 'p) env \<Rightarrow> bytes option \<Rightarrow> bytes option \<Rightarrow> int \<Rightarrow> event list \<Rightarrow> int \<times> der_frame" where
  "derive_pubkey env privkey pubkey_out compressed tr =
     (let fr = \<lparr>d_privkey = privkey, d_pubkey_out = pubkey_out, d_trace = tr\<rparr>
      in
      if privkey = None \<or> pubkey_out = None \<or> (compressed \<noteq> 0 \<and> compressed \<noteq> 1)
      then (- 1, fr)
      else
        let pubkey_len = (if compressed \<noteq> 0 then PUBKEY_COMPRESSION_SIZE
                          else PUBKEY_UNCOMPRESSION_SIZE);
            flags = (if compressed \<noteq> 0 then SECP256K1_EC_COMPRESSED
                     else SECP256K1_EC_UNCOMPRESSED);
            key = take PRIVKEY_SIZE (the privkey);
            tr1 = tr @ [ContextCreate]
        in
        (case context_create env (length tr) of
           None \<Rightarrow> (- 2, fr\<lparr>d_trace := tr1\<rparr>)
         | Some ctx \<Rightarrow>
             if \<not> ec_seckey_verify env ctx key
             then (- 5, fr\<lparr>d_trace := tr1 @ [ContextDestroy]\<rparr>)
             else
               (case ec_pubkey_create env ctx key of
                  None \<Rightarrow> (- 5, fr\<lparr>d_trace := tr1 @ [ContextDestroy]\<rparr>)
                | Some pubkey \<Rightarrow>
                    (case ec_pubkey_serialize env ctx pubkey pubkey_len flags of
                       (serialized, out) \<Rightarrow>
                         let pubkey_out1 =
                               map_option (\<lambda>b. poke b 0 (take pubkey_len out)) pubkey_out
                         in
                         if \<not> serialized
                         then (- 5, fr\<lparr>d_pubkey_out := pubkey_out1,
                                        d_trace := tr1 @ [ContextDestroy]\<rparr>)
                         else (0, fr\<lparr>d_pubkey_out := pubkey_out1,
                                      d_trace := tr1 @ [ContextDestroy]\<rparr>)))))"

text \<open>
  Nothing in the signature keeps the two pointers apart. The same function in one
  memory: the memory is an array of bytes, a pointer is an offset into it (\<open>None\<close> the
  null pointer), the key is read at \<^verbatim>\<open>privkey\<close> and the serialised key is stored at
  \<^verbatim>\<open>pubkey_out\<close>. The result is the returned value, the memory and the trace.
\<close>

definition derive_pubkey_mem ::
  "('c, 'p) env \<Rightarrow> bytes \<Rightarrow> nat option \<Rightarrow> nat option \<Rightarrow> int \<Rightarrow> event list
     \<Rightarrow> int \<times> bytes \<times> event list" where
  "derive_pubkey_mem env mem privkey pubkey_out compressed tr =
     (if privkey = None \<or> pubkey_out = None \<or> (compressed \<noteq> 0 \<and> compressed \<noteq> 1)
      then (- 1, mem, tr)
      else
        let pubkey_len = (if compressed \<noteq> 0 then PUBKEY_COMPRESSION_SIZE
                          else PUBKEY_UNCOMPRESSION_SIZE);
            flags = (if compressed \<noteq> 0 then SECP256K1_EC_COMPRESSED
                     else SECP256K1_EC_UNCOMPRESSED);
            key = take PRIVKEY_SIZE (drop (the privkey) mem);
            tr1 = tr @ [ContextCreate]
        in
        (case context_create env (length tr) of
           None \<Rightarrow> (- 2, mem, tr1)
         | Some ctx \<Rightarrow>
             if \<not> ec_seckey_verify env ctx key
             then (- 5, mem, tr1 @ [ContextDestroy])
             else
               (case ec_pubkey_create env ctx key of
                  None \<Rightarrow> (- 5, mem, tr1 @ [ContextDestroy])
                | Some pubkey \<Rightarrow>
                    (case ec_pubkey_serialize env ctx pubkey pubkey_len flags of
                       (serialized, out) \<Rightarrow>
                         let mem1 = poke mem (the pubkey_out) (take pubkey_len out)
                         in
                         if \<not> serialized
                         then (- 5, mem1, tr1 @ [ContextDestroy])
                         else (0, mem1, tr1 @ [ContextDestroy])))))"

section \<open>A reference environment: the curve secp256k1 and scripted system calls\<close>

text \<open>
  To run the model on concrete inputs, the library's functions are instantiated with
  the curve itself: the validity predicate of the glossary (a 32-byte big-endian scalar,
  nonzero and below the group order), the point \<open>k * G\<close> in affine coordinates over the
  prime field, and the two wire forms of a point. A context only carries its blinding
  seed, which no result depends on.
\<close>

definition be_int :: "bytes \<Rightarrow> int" where
  "be_int bs = foldl (\<lambda>a b. a * 256 + uint b) 0 bs"

fun int_be :: "nat \<Rightarrow> int \<Rightarrow> bytes" where
  "int_be 0 x = []"
| "int_be (Suc k) x = int_be k (x div 256) @ [word_of_int (x mod 256)]"

definition group_order :: int where
  "group_order = 0xFFFFFFFFFFFFFFFFFFFFFFFFFFFFFFFEBAAEDCE6AF48A03BBFD25E8CD0364141"

definition field_prime :: int where
  "field_prime = 2 ^ 256 - 2 ^ 32 - 977"

datatype point = Infinity | Affine int int

definition generator :: point where
  "generator =
     Affine 0x79BE667EF9DCBBAC55A06295CE870B07029BFCDB2DCE28D959F2815B16F81798
            0x483ADA7726A3C4655DA4FBFC0E1108A8FD17B448A68554199C47D08FFB10D4B8"

fun fpow :: "int \<Rightarrow> int \<Rightarrow> int" where
  "fpow b e =
     (if e \<le> 0 then 1
      else let h = fpow b (e div 2); s = h * h mod field_prime
           in if odd e then s * b mod field_prime else s)"

definition finv :: "int \<Rightarrow> int" where
  "finv a = fpow a (field_prime - 2)"

definition fsub :: "int \<Rightarrow> int \<Rightarrow> int" where
  "fsub a b = (a - b) mod field_prime"

definition ec_add :: "point \<Rightarrow> point \<Rightarrow> point" where
  "ec_add P Q =
     (case P of
        Infinity \<Rightarrow> Q
      | Affine x1 y1 \<Rightarrow>
          (case Q of
             Infinity \<Rightarrow> P
           | Affine x2 y2 \<Rightarrow>
               if x1 = x2 \<and> (y1 + y2) mod field_prime = 0 then Infinity
               else
                 let l = (if x1 = x2 then 3 * x1 * x1 * finv (2 * y1)
                          else fsub y2 y1 * finv (fsub x2 x1)) mod field_prime;
                     x3 = fsub (fsub (l * l) x1) x2;
                     y3 = fsub (l * fsub x1 x3) y1
                 in Affine x3 y3))"

fun ec_mul :: "int \<Rightarrow> point \<Rightarrow> point" where
  "ec_mul k P =
     (if k \<le> 0 then Infinity
      else let Q = ec_mul (k div 2) P; D = ec_add Q Q
           in if odd k then ec_add D P else D)"

type_synonym ref_ctx = "bytes option"

definition ref_seckey_verify :: "ref_ctx \<Rightarrow> bytes \<Rightarrow> bool" where
  "ref_seckey_verify ctx key =
     (length key = 32 \<and> 0 < be_int key \<and> be_int key < group_order)"

definition ref_pubkey_create :: "ref_ctx \<Rightarrow> bytes \<Rightarrow> point option" where
  "ref_pubkey_create ctx key =
     (if ref_seckey_verify ctx key then Some (ec_mul (be_int key) generator) else None)"

definition ref_pubkey_serialize :: "ref_ctx \<Rightarrow> point \<Rightarrow> nat \<Rightarrow> int \<Rightarrow> bool \<times> bytes" where
  "ref_pubkey_serialize ctx P outputlen flags =
     (case P of
        Infinity \<Rightarrow> (False, replicate outputlen 0)
      | Affine x y \<Rightarrow>
          if flags = SECP256K1_EC_COMPRESSED
          then (if outputlen < 33 then (False, [])
                else (True, (if even y then 2 else 3) # int_be 32 x))
          else (if outputlen < 65 then (False, [])
                else (True, 4 # int_be 32 x @ int_be 32 y)))"

text \<open>
  The reference environment takes the answers of the allocator and of the system calls
  as functions of the moment of the call; uninitialised stack memory holds \<open>0xAA\<close>.
\<close>

definition ref_env ::
  "(nat \<Rightarrow> bool) \<Rightarrow> (nat \<Rightarrow> getrandom_res) \<Rightarrow> (nat \<Rightarrow> int) \<Rightarrow> (nat \<Rightarrow> read_res)
     \<Rightarrow> (ref_ctx, point) env" where
  "ref_env alloc gr op rd =
     \<lparr>context_create = (\<lambda>t. if alloc t then Some None else None),
      context_randomize = (\<lambda>ctx seed. Some (Some seed)),
      ec_seckey_verify = ref_seckey_verify,
      ec_pubkey_create = ref_pubkey_create,
      ec_pubkey_serialize = ref_pubkey_serialize,
      sys_getrandom = (\<lambda>t sz. gr t),
      sys_open = op,
      sys_read = (\<lambda>t fd count. rd t),
      stack = (\<lambda>a. 0xAA)\<rparr>"

text \<open>The scalar 1 (the key of the known-vector test), an all-zero key and a seed.\<close>

definition key_one :: bytes where
  "key_one = replicate 31 0 @ [1]"

definition key_zero :: bytes where
  "key_zero = replicate 32 0"

definition seed_bytes :: bytes where
  "seed_bytes = replicate 32 0x11"

text \<open>
  \<open>env_redraw\<close>: \<^verbatim>\<open>getrandom\<close> works; the first candidate drawn is \<open>0xFF...FF\<close>, which is
  not below the group order, the second is the scalar 1. Contexts can be created while
  \<open>alloc\<close> says so.
\<close>

definition redraw_getrandom :: "nat \<Rightarrow> getrandom_res" where
  "redraw_getrandom t =
     (if t = 1 then GetrandomOk seed_bytes
      else if t = 3 then GetrandomOk (replicate 32 0xFF)
      else GetrandomOk key_one)"

definition env_redraw :: "(nat \<Rightarrow> bool) \<Rightarrow> (ref_ctx, point) env" where
  "env_redraw alloc = ref_env alloc redraw_getrandom (\<lambda>t. - 1) (\<lambda>t. ReadErr)"

definition always :: "nat \<Rightarrow> bool" where
  "always t = True"


text \<open>
  \<open>env_urandom\<close>: \<^verbatim>\<open>getrandom\<close> is not implemented (\<^verbatim>\<open>ENOSYS\<close>), \<^verbatim>\<open>/dev/urandom\<close> opens as
  descriptor 3; the read made at moment 3 delivers a whole seed, the read made at
  moment 8 delivers 16 bytes, and every other read fails.
\<close>

definition urandom_read :: "nat \<Rightarrow> read_res" where
  "urandom_read t =
     (if t = 3 then ReadOk seed_bytes
      else if t = 8 then ReadOk (replicate 16 0x5A)
      else ReadErr)"

definition env_urandom :: "(ref_ctx, point) env" where
  "env_urandom = ref_env always (\<lambda>t. GetrandomErr ENOSYS) (\<lambda>t. 3) urandom_read"


text \<open>Libraries that malfunction: point creation fails, or serialisation fails.\<close>

definition env_no_create :: "(ref_ctx, point) env" where
  "env_no_create = (env_redraw always)\<lparr>ec_pubkey_create := (\<lambda>ctx key. None)\<rparr>"

definition env_no_serialize :: "(ref_ctx, point) env" where
  "env_no_serialize =
     (env_redraw always)\<lparr>ec_pubkey_serialize := (\<lambda>ctx P outputlen flags. (False, []))\<rparr>"




section \<open>Vocabulary of the statements\<close>

text \<open>The output length and the flags that both functions compute from \<^verbatim>\<open>compressed\<close>.\<close>

definition pubkey_len_of :: "int \<Rightarrow> nat" where
  "pubkey_len_of compressed =
     (if compressed \<noteq> 0 then PUBKEY_COMPRESSION_SIZE else PUBKEY_UNCOMPRESSION_SIZE)"

definition flags_of :: "int \<Rightarrow> int" where
  "flags_of compressed =
     (if compressed \<noteq> 0 then SECP256K1_EC_COMPRESSED else SECP256K1_EC_UNCOMPRESSED)"


text \<open>
  The two failures after validation: \<^verbatim>\<open>secp256k1_ec_pubkey_create\<close> returns 0, or it
  succeeds and \<^verbatim>\<open>secp256k1_ec_pubkey_serialize\<close> returns 0.
\<close>

definition creation_fails :: "('c, 'p) env \<Rightarrow> 'c \<Rightarrow> bytes \<Rightarrow> bool" where
  "creation_fails env ctx key \<longleftrightarrow> ec_pubkey_create env ctx key = None"

definition serialization_fails :: "('c, 'p) env \<Rightarrow> 'c \<Rightarrow> bytes \<Rightarrow> int \<Rightarrow> bool" where
  "serialization_fails env ctx key compressed \<longleftrightarrow>
     (case ec_pubkey_create env ctx key of
        None \<Rightarrow> False
      | Some P \<Rightarrow>
          \<not> fst (ec_pubkey_serialize env ctx P (pubkey_len_of compressed) (flags_of compressed)))"

text \<open>
  A call of \<^verbatim>\<open>secp256k1_wrapper_generate_keys\<close> with valid arguments, started at trace
  \<open>tr\<close>, reaches the creation of the public key with context \<open>ctx\<close> and candidate \<open>key\<close>:
  the context was created, the seed drawn, the context randomised, and the loop left
  with \<open>key\<close> accepted.
\<close>

definition reaches_creation :: "('c, 'p) env \<Rightarrow> event list \<Rightarrow> 'c \<Rightarrow> bytes \<Rightarrow> bool" where
  "reaches_creation env tr ctx key \<longleftrightarrow>
     (case context_create env (length tr) of
        None \<Rightarrow> False
      | Some ctx0 \<Rightarrow>
          (case fill_random env (map (stack env) [0 ..< PRIVKEY_SIZE]) PRIVKEY_SIZE
                  (tr @ [ContextCreate]) of
             (filled, seed, tr2) \<Rightarrow>
               filled \<noteq> 0 \<and> context_randomize env ctx0 seed = Some ctx \<and>
               (case candidate_loop env ctx (map (stack env) [PRIVKEY_SIZE ..< 2 * PRIVKEY_SIZE])
                       (tr2 @ [ContextRandomize]) of
                  None \<Rightarrow> False
                | Some (accepted, key', tr3) \<Rightarrow> accepted \<and> key' = key)))"

section \<open>Frames of concrete runs\<close>

text \<open>The frame that \<open>env_redraw\<close> leaves when a compressed key pair is generated: the
  scalar 1 and the compressed form of the generator \<open>G\<close>.\<close>

definition redraw_trace :: "event list" where
  "redraw_trace =
     [ContextCreate, Getrandom, ContextRandomize, Getrandom, Getrandom, ContextDestroy]"

definition frame_redraw :: gen_frame where
  "frame_redraw =
     \<lparr>g_privkey_out = Some key_one,
      g_pubkey_out =
        Some (2 # int_be 32 0x79BE667EF9DCBBAC55A06295CE870B07029BFCDB2DCE28D959F2815B16F81798),
      g_randomize = replicate 32 0,
      g_privkey = replicate 32 0,
      g_trace = redraw_trace\<rparr>"

text \<open>The frame of a generation that fails after the loop, the caller's buffers holding
  \<open>key_zero\<close> and 33 zero bytes at entry.\<close>

definition frame_failed :: gen_frame where
  "frame_failed =
     \<lparr>g_privkey_out = Some key_zero,
      g_pubkey_out = Some (replicate 33 0),
      g_randomize = replicate 32 0,
      g_privkey = replicate 32 0,
      g_trace = redraw_trace\<rparr>"

text \<open>A memory of 33 bytes that holds the scalar 1 in its first 32 bytes.\<close>

definition mem_key_one :: bytes where
  "mem_key_one = key_one @ [0]"

text \<open>The frame that \<open>env_urandom\<close> leaves: the seed was read, then the read for the
  first candidate delivered 16 bytes and the next read failed.\<close>

definition frame_urandom :: gen_frame where
  "frame_urandom =
     \<lparr>g_privkey_out = Some key_zero,
      g_pubkey_out = Some (replicate 33 0),
      g_randomize = replicate 32 0,
      g_privkey = replicate 16 0x5A @ replicate 16 0xAA,
      g_trace = [ContextCreate, Getrandom, Open, Read, Close, ContextRandomize,
                 Getrandom, Open, Read, Read, Close, ContextDestroy]\<rparr>"

section \<open>The reference environment and the repository's known vector\<close>

text \<open>
  \<^verbatim>\<open>test_known_private_key\<close> of the repository's tests: the scalar 1 derives the compressed
  key \<^verbatim>\<open>02 79BE667E ... 16F81798\<close>. The model run in the reference environment gives
  these bytes.
\<close>

lemma derive_pubkey_known_vector:
  "derive_pubkey (env_redraw always) (Some key_one) (Some (replicate 33 0)) 1 [] =
     (0, \<lparr>d_privkey = Some key_one,
           d_pubkey_out =
             Some [0x02, 0x79, 0xBE, 0x66, 0x7E, 0xF9, 0xDC, 0xBB,
                   0xAC, 0x55, 0xA0, 0x62, 0x95, 0xCE, 0x87, 0x0B,
                   0x07, 0x02, 0x9B, 0xFC, 0xDB, 0x2D, 0xCE, 0x28,
                   0xD9, 0x59, 0xF2, 0x81, 0x5B, 0x16, 0xF8, 0x17, 0x98],
           d_trace = [ContextCreate, ContextDestroy]\<rparr>)"
  by code_simp

section \<open>Buffers keep their length\<close>

lemma length_poke: "off + length w \<le> length buf \<Longrightarrow> length (poke buf off w) = length buf"
  by (simp add: poke_def)

lemma getrandom_length:
  "getrandom env tr data sz = ((res, e), data', tr') \<Longrightarrow> sz \<le> length data
     \<Longrightarrow> length data' = length data"
  by (auto simp: getrandom_def Let_def length_poke split: getrandom_res.splits)

lemma read_fd_length:
  "read_fd env tr fd data off count = (r, data', tr') \<Longrightarrow> off + count \<le> length data
     \<Longrightarrow> length data' = length data"
  by (auto simp: read_fd_def Let_def length_poke split: read_res.splits)

lemma read_fd_bound:
  "read_fd env tr fd data off count = (r, data', tr') \<Longrightarrow> r \<le> int count"
  by (auto simp: read_fd_def Let_def split: read_res.splits)

lemma read_loop_length:
  "read_loop env fd sz off data tr = (ret, off', data', tr') \<Longrightarrow> off \<le> sz
     \<Longrightarrow> sz \<le> length data \<Longrightarrow> length data' = length data"
proof (induction env fd sz off data tr rule: read_loop.induct)
  case (1 env fd sz off data tr)
  note unfold = read_loop.simps [of env fd sz off]
  show ?case
  proof (cases "off < sz")
    case False
    with "1.prems" show ?thesis by (simp add: unfold)
  next
    case True
    obtain r d t where rd: "read_fd env tr fd data off (sz - off) = (r, d, t)"
      by (cases "read_fd env tr fd data off (sz - off)") auto
    from rd True "1.prems" have len: "length d = length data"
      by (intro read_fd_length [OF rd]) simp
    show ?thesis
    proof (cases "r \<le> 0")
      case True
      with \<open>off < sz\<close> rd "1.prems" len show ?thesis by (simp add: unfold)
    next
      case False
      from read_fd_bound [OF rd] False \<open>off < sz\<close> have "off + nat r \<le> sz" by linarith
      with "1.IH" [OF \<open>off < sz\<close> rd [symmetric] refl False] "1.prems" rd \<open>off < sz\<close> False len
      show ?thesis by (simp add: unfold)
    qed
  qed
qed

lemma fill_random_length:
  "fill_random env data sz tr = (ret, data', tr') \<Longrightarrow> sz \<le> length data
     \<Longrightarrow> length data' = length data"
  apply (auto simp: fill_random_def open_urandom_def split: prod.splits if_splits
              dest: getrandom_length)
  apply (metis getrandom_length read_loop_length le0)
  done

section \<open>The candidate loop\<close>

lemma candidate_loop_accepts:
  assumes "candidate_loop env ctx privkey tr = Some y"
  shows "fst y \<longrightarrow> ec_seckey_verify env ctx (fst (snd y))"
  by (rule candidate_loop.raw_induct [OF _ assms]) (auto split: prod.splits if_splits)

lemma candidate_loop_length:
  assumes "candidate_loop env ctx privkey tr = Some y"
  shows "length privkey = PRIVKEY_SIZE \<longrightarrow> length (fst (snd y)) = PRIVKEY_SIZE"
  by (rule candidate_loop.raw_induct [OF _ assms])
     (auto split: prod.splits if_splits dest: fill_random_length)

lemma candidate_loop_Some:
  assumes "candidate_loop env ctx (map (stack env) [PRIVKEY_SIZE ..< 2 * PRIVKEY_SIZE]) tr
             = Some (accepted, key, tr')"
  shows "length key = PRIVKEY_SIZE \<and> (accepted \<longrightarrow> ec_seckey_verify env ctx key)"
  using candidate_loop_accepts [OF assms] candidate_loop_length [OF assms] by simp

section \<open>Key generation\<close>

text \<open>
  C1. Whenever \<^verbatim>\<open>secp256k1_wrapper_generate_keys\<close> returns 0, the 32 bytes it wrote to
  \<^verbatim>\<open>privkey_out\<close> are a key that \<^verbatim>\<open>secp256k1_ec_seckey_verify\<close> accepts, in the context
  the function created and randomised: only an accepted candidate leaves the loop and
  is copied to the caller.
\<close>

theorem generate_keys_private_key_valid:
  assumes "generate_keys env privkey_out pubkey_out compressed tr = Some (0, fr)"
  shows "\<exists>out ctx0 seed ctx.
           g_privkey_out fr = Some out \<and>
           context_create env (length tr) = Some ctx0 \<and>
           context_randomize env ctx0 seed = Some ctx \<and>
           ec_seckey_verify env ctx (take PRIVKEY_SIZE out)"
  using assms
  apply (simp add: generate_keys_def Let_def split: if_splits option.splits prod.splits)
   apply (auto simp: memcpy_def poke_def dest!: candidate_loop_Some)
   apply blast+
  done

theorem generate_keys_private_key_valid_witness:
  "generate_keys (env_redraw always) (Some key_zero) (Some (replicate 33 0)) 1 [] =
     Some (0, frame_redraw) \<and>
   (\<exists>out ctx0 seed ctx.
      g_privkey_out frame_redraw = Some out \<and>
      context_create (env_redraw always) (length ([] :: event list)) = Some ctx0 \<and>
      context_randomize (env_redraw always) ctx0 seed = Some ctx \<and>
      ec_seckey_verify (env_redraw always) ctx (take PRIVKEY_SIZE out))"
proof -
  have run: "generate_keys (env_redraw always) (Some key_zero) (Some (replicate 33 0)) 1 [] =
               Some (0, frame_redraw)"
    by code_simp
  from generate_keys_private_key_valid [OF run] run show ?thesis by simp
qed

text \<open>
  C2. The specification has the local array \<^verbatim>\<open>privkey\<close> zeroed before the context is
  destroyed and \<open>-3\<close> is returned, when a draw fails inside the candidate loop. The code
  returns from inside the loop without calling \<^verbatim>\<open>secure_memzero\<close>, unlike every return
  after the loop. In the run below
  \<^verbatim>\<open>getrandom\<close> is not implemented, the seed is read from \<^verbatim>\<open>/dev/urandom\<close>, the read for
  the first candidate delivers 16 bytes and the next read fails: the function returns
  \<open>-3\<close> and the array still holds the 16 bytes that were read.
\<close>

theorem generate_keys_candidate_left_unwiped:
  "generate_keys env_urandom (Some key_zero) (Some (replicate 33 0)) 1 [] =
     Some (- 3, frame_urandom) \<and>
   g_privkey frame_urandom = replicate 16 0x5A @ replicate 16 0xAA \<and>
   g_privkey frame_urandom \<noteq> replicate PRIVKEY_SIZE 0"
  by code_simp



section \<open>Argument checks\<close>

text \<open>
  C6. When a buffer pointer is null or \<^verbatim>\<open>compressed\<close> is neither 0 nor 1, both
  \<^verbatim>\<open>secp256k1_wrapper_generate_keys\<close> and \<^verbatim>\<open>secp256k1_wrapper_derive_pubkey\<close> return \<open>-1\<close>
  with the caller's buffers unchanged and the trace unchanged: no context was created
  and no random bytes were drawn, whatever the environment would have answered. The
  local arrays of the generator still hold the stack's content.
\<close>

theorem invalid_argument_rejected:
  assumes "privkey_out = None \<or> pubkey_out = None \<or> (compressed \<noteq> 0 \<and> compressed \<noteq> 1)"
  shows "generate_keys env privkey_out pubkey_out compressed tr =
           Some (- 1, \<lparr>g_privkey_out = privkey_out, g_pubkey_out = pubkey_out,
                       g_randomize = map (stack env) [0 ..< PRIVKEY_SIZE],
                       g_privkey = map (stack env) [PRIVKEY_SIZE ..< 2 * PRIVKEY_SIZE],
                       g_trace = tr\<rparr>) \<and>
         derive_pubkey env privkey_out pubkey_out compressed tr =
           (- 1, \<lparr>d_privkey = privkey_out, d_pubkey_out = pubkey_out, d_trace = tr\<rparr>)"
  using assms by (auto simp: generate_keys_def derive_pubkey_def Let_def)

theorem invalid_argument_rejected_witness:
  "(generate_keys (env_redraw always) None (Some (replicate 33 0)) 1 [] =
      Some (- 1, \<lparr>g_privkey_out = None, g_pubkey_out = Some (replicate 33 0),
                  g_randomize = map (stack (env_redraw always)) [0 ..< PRIVKEY_SIZE],
                  g_privkey = map (stack (env_redraw always)) [PRIVKEY_SIZE ..< 2 * PRIVKEY_SIZE],
                  g_trace = []\<rparr>) \<and>
    derive_pubkey (env_redraw always) None (Some (replicate 33 0)) 1 [] =
      (- 1, \<lparr>d_privkey = None, d_pubkey_out = Some (replicate 33 0), d_trace = []\<rparr>)) \<and>
   (generate_keys (env_redraw always) (Some key_one) (Some (replicate 33 0)) 2 [] =
      Some (- 1, \<lparr>g_privkey_out = Some key_one, g_pubkey_out = Some (replicate 33 0),
                  g_randomize = map (stack (env_redraw always)) [0 ..< PRIVKEY_SIZE],
                  g_privkey = map (stack (env_redraw always)) [PRIVKEY_SIZE ..< 2 * PRIVKEY_SIZE],
                  g_trace = []\<rparr>) \<and>
    derive_pubkey (env_redraw always) (Some key_one) (Some (replicate 33 0)) 2 [] =
      (- 1, \<lparr>d_privkey = Some key_one, d_pubkey_out = Some (replicate 33 0),
             d_trace = []\<rparr>))"
proof -
  have null: "(None :: bytes option) = None \<or> Some (replicate 33 (0 :: byte)) = None \<or>
                ((1 :: int) \<noteq> 0 \<and> (1 :: int) \<noteq> 1)"
    by simp
  have mode: "Some key_one = None \<or> Some (replicate 33 (0 :: byte)) = None \<or>
                ((2 :: int) \<noteq> 0 \<and> (2 :: int) \<noteq> 1)"
    by simp
  show ?thesis
    by (rule conjI [OF invalid_argument_rejected [OF null] invalid_argument_rejected [OF mode]])
qed

section \<open>Derivation of the public key\<close>

text \<open>The function in one memory, seen from its two pointers, is the function on two
  separate buffers: the same returned value, the same trace, the same bytes from
  \<^verbatim>\<open>pubkey_out\<close> on. Only what becomes of the key bytes can differ.\<close>

lemma length_poke_ge: "length buf \<le> length (poke buf off w)"
  by (simp add: poke_def)

lemma nth_poke_outside:
  assumes "a < length buf" and "a < off \<or> off + length w \<le> a"
  shows "poke buf off w ! a = buf ! a"
proof (cases "a < off")
  case True
  with assms(1) show ?thesis by (simp add: poke_def nth_append)
next
  case False
  with assms(2) have ge: "off + length w \<le> a" by simp
  with assms(1) have off: "off \<le> length buf" by simp
  from ge have n1: "\<not> a < off" and n2: "\<not> a - off < length w" by linarith+
  from off have "poke buf off w ! a = (w @ drop (off + length w) buf) ! (a - off)"
    using n1 by (simp add: poke_def nth_append)
  also from n2 have "\<dots> = drop (off + length w) buf ! (a - off - length w)"
    by (simp add: nth_append)
  also from ge assms(1) have "\<dots> = buf ! a" by simp
  finally show ?thesis .
qed

lemma poke_Nil: "poke buf off [] = buf"
  by (simp add: poke_def)

lemma derive_pubkey_mem_unfold:
  assumes "compressed = 0 \<or> compressed = 1"
  shows "derive_pubkey_mem env mem (Some p) (Some q) compressed tr =
           (case context_create env (length tr) of
              None \<Rightarrow> (- 2, mem, tr @ [ContextCreate])
            | Some ctx \<Rightarrow>
                if \<not> ec_seckey_verify env ctx (take PRIVKEY_SIZE (drop p mem))
                then (- 5, mem, tr @ [ContextCreate, ContextDestroy])
                else
                  (case ec_pubkey_create env ctx (take PRIVKEY_SIZE (drop p mem)) of
                     None \<Rightarrow> (- 5, mem, tr @ [ContextCreate, ContextDestroy])
                   | Some P \<Rightarrow>
                       (if fst (ec_pubkey_serialize env ctx P (pubkey_len_of compressed)
                                  (flags_of compressed))
                        then 0 else - 5,
                        poke mem q
                          (take (pubkey_len_of compressed)
                             (snd (ec_pubkey_serialize env ctx P (pubkey_len_of compressed)
                                     (flags_of compressed)))),
                        tr @ [ContextCreate, ContextDestroy])))"
  using assms
  by (auto simp: derive_pubkey_mem_def Let_def case_prod_beta pubkey_len_of_def flags_of_def
        split: option.splits)

lemma derive_pubkey_unfold:
  assumes "compressed = 0 \<or> compressed = 1"
  shows "derive_pubkey env (Some k) (Some b) compressed tr =
           (case context_create env (length tr) of
              None \<Rightarrow> (- 2, \<lparr>d_privkey = Some k, d_pubkey_out = Some b,
                              d_trace = tr @ [ContextCreate]\<rparr>)
            | Some ctx \<Rightarrow>
                if \<not> ec_seckey_verify env ctx (take PRIVKEY_SIZE k)
                then (- 5, \<lparr>d_privkey = Some k, d_pubkey_out = Some b,
                            d_trace = tr @ [ContextCreate, ContextDestroy]\<rparr>)
                else
                  (case ec_pubkey_create env ctx (take PRIVKEY_SIZE k) of
                     None \<Rightarrow> (- 5, \<lparr>d_privkey = Some k, d_pubkey_out = Some b,
                                    d_trace = tr @ [ContextCreate, ContextDestroy]\<rparr>)
                   | Some P \<Rightarrow>
                       (if fst (ec_pubkey_serialize env ctx P (pubkey_len_of compressed)
                                  (flags_of compressed))
                        then 0 else - 5,
                        \<lparr>d_privkey = Some k,
                         d_pubkey_out =
                           Some (poke b 0
                                  (take (pubkey_len_of compressed)
                                     (snd (ec_pubkey_serialize env ctx P
                                             (pubkey_len_of compressed) (flags_of compressed))))),
                         d_trace = tr @ [ContextCreate, ContextDestroy]\<rparr>)))"
  using assms
  by (auto simp: derive_pubkey_def Let_def case_prod_beta pubkey_len_of_def flags_of_def
        split: option.splits)

lemma derive_pubkey_mem_stores:
  "\<exists>w. length w \<le> pubkey_len_of compressed \<and>
       fst (snd (derive_pubkey_mem env mem (Some p) (Some q) compressed tr)) = poke mem q w"
proof (cases "compressed = 0 \<or> compressed = 1")
  case False
  then show ?thesis
    by (intro exI [of _ "[]"]) (simp add: derive_pubkey_mem_def poke_Nil)
next
  case True
  show ?thesis
  proof (cases "context_create env (length tr)")
    case None
    with True show ?thesis
      by (intro exI [of _ "[]"]) (simp add: derive_pubkey_mem_unfold poke_Nil)
  next
    case (Some ctx)
    show ?thesis
    proof (cases "ec_seckey_verify env ctx (take PRIVKEY_SIZE (drop p mem))")
      case False
      with True Some show ?thesis
        by (intro exI [of _ "[]"]) (simp add: derive_pubkey_mem_unfold poke_Nil)
    next
      case valid: True
      show ?thesis
      proof (cases "ec_pubkey_create env ctx (take PRIVKEY_SIZE (drop p mem))")
        case None
        with True Some valid show ?thesis
          by (intro exI [of _ "[]"]) (simp add: derive_pubkey_mem_unfold poke_Nil)
      next
        case (Some P)
        with True \<open>context_create env (length tr) = Some ctx\<close> valid show ?thesis
          by (intro exI [of _ "take (pubkey_len_of compressed)
                                 (snd (ec_pubkey_serialize env ctx P (pubkey_len_of compressed)
                                         (flags_of compressed)))"])
             (simp add: derive_pubkey_mem_unfold)
      qed
    qed
  qed
qed

lemma drop_poke: "q \<le> length mem \<Longrightarrow> drop q (poke mem q w) = poke (drop q mem) 0 w"
  by (simp add: poke_def add.commute)

lemma derive_pubkey_mem_view:
  assumes "q \<le> length mem"
  shows "fst (derive_pubkey_mem env mem (Some p) (Some q) compressed tr) =
           fst (derive_pubkey env (Some (drop p mem)) (Some (drop q mem)) compressed tr) \<and>
         snd (snd (derive_pubkey_mem env mem (Some p) (Some q) compressed tr)) =
           d_trace (snd (derive_pubkey env (Some (drop p mem)) (Some (drop q mem)) compressed tr)) \<and>
         Some (drop q (fst (snd (derive_pubkey_mem env mem (Some p) (Some q) compressed tr)))) =
           d_pubkey_out (snd (derive_pubkey env (Some (drop p mem)) (Some (drop q mem))
                                compressed tr))"
proof (cases "compressed = 0 \<or> compressed = 1")
  case False
  then show ?thesis by (simp add: derive_pubkey_mem_def derive_pubkey_def)
next
  case True
  with assms show ?thesis
    by (simp add: derive_pubkey_mem_unfold derive_pubkey_unfold drop_poke
          split: option.splits)
qed

text \<open>
  C8, as stated, fails. It has the 32 bytes at \<^verbatim>\<open>privkey\<close> unchanged on every path. The
  function stores the serialised key at \<^verbatim>\<open>pubkey_out\<close>, and nothing keeps the two
  pointers apart: called in place, with both pointers at offset 0 of a 33-byte memory
  that holds the scalar 1, it returns 0 and the memory holds the compressed generator,
  whose first 32 bytes are no longer the key.
\<close>

theorem derive_pubkey_overwrites_privkey_counterexample:
  "derive_pubkey_mem (env_redraw always) mem_key_one (Some 0) (Some 0) 1 [] =
     (0, 2 # int_be 32 0x79BE667EF9DCBBAC55A06295CE870B07029BFCDB2DCE28D959F2815B16F81798,
      [ContextCreate, ContextDestroy]) \<and>
   take PRIVKEY_SIZE (drop 0 mem_key_one) = key_one \<and>
   take PRIVKEY_SIZE
     (drop 0 (fst (snd (derive_pubkey_mem (env_redraw always) mem_key_one (Some 0) (Some 0) 1 []))))
     \<noteq> key_one"
  by code_simp

text \<open>
  C8, amended. \<^verbatim>\<open>secp256k1_wrapper_derive_pubkey\<close> stores only through \<^verbatim>\<open>pubkey_out\<close>,
  within the 33 or 65 bytes of the requested form: every byte of the memory outside
  them is on return what it was at entry, on every path. So the 32 bytes at \<^verbatim>\<open>privkey\<close>
  are unchanged, and never wiped, whenever they do not overlap those bytes at
  \<^verbatim>\<open>pubkey_out\<close>; and with a null \<^verbatim>\<open>pubkey_out\<close> nothing is stored at all.
\<close>

theorem derive_pubkey_mem_keeps_privkey:
  assumes key: "p + PRIVKEY_SIZE \<le> length mem"
    and apart: "p + PRIVKEY_SIZE \<le> q \<or> q + pubkey_len_of compressed \<le> p"
  shows "take PRIVKEY_SIZE
           (drop p (fst (snd (derive_pubkey_mem env mem (Some p) (Some q) compressed tr))))
         = take PRIVKEY_SIZE (drop p mem) \<and>
         (\<forall>a. a < length mem \<and> (a < q \<or> q + pubkey_len_of compressed \<le> a) \<longrightarrow>
            fst (snd (derive_pubkey_mem env mem (Some p) (Some q) compressed tr)) ! a = mem ! a) \<and>
         fst (snd (derive_pubkey_mem env mem (Some p) None compressed tr)) = mem"
proof -
  let ?mem' = "fst (snd (derive_pubkey_mem env mem (Some p) (Some q) compressed tr))"
  from derive_pubkey_mem_stores [of compressed env mem p q tr]
  obtain w where w: "length w \<le> pubkey_len_of compressed" and mem': "?mem' = poke mem q w"
    by blast
  have frame: "?mem' ! a = mem ! a"
    if "a < length mem" and "a < q \<or> q + pubkey_len_of compressed \<le> a" for a
  proof -
    from that(2) w have "a < q \<or> q + length w \<le> a" by linarith
    from nth_poke_outside [OF that(1) this] mem' show ?thesis by simp
  qed
  have len: "length mem \<le> length ?mem'" by (simp add: mem' length_poke_ge)
  have "take PRIVKEY_SIZE (drop p ?mem') = take PRIVKEY_SIZE (drop p mem)"
  proof (rule nth_equalityI)
    from key len show "length (take PRIVKEY_SIZE (drop p ?mem'))
                         = length (take PRIVKEY_SIZE (drop p mem))"
      by simp
  next
    fix i assume "i < length (take PRIVKEY_SIZE (drop p ?mem'))"
    then have i: "i < PRIVKEY_SIZE" by simp
    with key have a: "p + i < length mem" by simp
    from i apart have "p + i < q \<or> q + pubkey_len_of compressed \<le> p + i" by linarith
    from frame [OF a this] i key len
    show "take PRIVKEY_SIZE (drop p ?mem') ! i = take PRIVKEY_SIZE (drop p mem) ! i"
      by simp
  qed
  moreover have "fst (snd (derive_pubkey_mem env mem (Some p) None compressed tr)) = mem"
    by (simp add: derive_pubkey_mem_def)
  ultimately show ?thesis using frame by blast
qed

theorem derive_pubkey_mem_keeps_privkey_witness:
  "32 + PRIVKEY_SIZE \<le> length (replicate 32 0 @ key_one @ replicate 33 0xFF) \<and>
   32 + PRIVKEY_SIZE \<le> 64 \<and>
   fst (derive_pubkey_mem (env_redraw always) (replicate 32 0 @ key_one @ replicate 33 0xFF)
          (Some 32) (Some 64) 1 []) = 0 \<and>
   take PRIVKEY_SIZE
     (drop 32 (fst (snd (derive_pubkey_mem (env_redraw always)
                            (replicate 32 0 @ key_one @ replicate 33 0xFF)
                            (Some 32) (Some 64) 1 []))))
     = take PRIVKEY_SIZE (drop 32 (replicate 32 0 @ key_one @ replicate 33 0xFF)) \<and>
   take PRIVKEY_SIZE (drop 32 (replicate 32 0 @ key_one @ replicate 33 0xFF)) = key_one \<and>
   fst (snd (derive_pubkey_mem (env_redraw always)
               (replicate 32 0 @ key_one @ replicate 33 0xFF) (Some 32) (Some 64) 1 [])) ! 5
     = (replicate 32 0 @ key_one @ replicate 33 0xFF) ! 5"
proof -
  have key: "32 + PRIVKEY_SIZE \<le> length (replicate 32 (0 :: byte) @ key_one @ replicate 33 0xFF)"
    and apart: "32 + PRIVKEY_SIZE \<le> 64 \<or> 64 + pubkey_len_of 1 \<le> 32"
    and fst: "32 + PRIVKEY_SIZE \<le> (64 :: nat)"
    by code_simp+
  have ok: "fst (derive_pubkey_mem (env_redraw always)
                   (replicate 32 0 @ key_one @ replicate 33 0xFF) (Some 32) (Some 64) 1 []) = 0"
    and content: "take PRIVKEY_SIZE (drop 32 (replicate 32 0 @ key_one @ replicate 33 0xFF))
                    = key_one"
    and five: "5 < length (replicate 32 (0 :: byte) @ key_one @ replicate 33 0xFF) \<and>
               ((5 :: nat) < 64 \<or> 64 + pubkey_len_of 1 \<le> 5)"
    by code_simp+
  from derive_pubkey_mem_keeps_privkey [OF key apart, of "env_redraw always" "[]"]
       key fst ok content five
  show ?thesis by blast
qed

lemma derive_pubkey_invalid_key:
  assumes "compressed = 0 \<or> compressed = 1"
    and "context_create env (length tr) = Some ctx"
    and "\<not> ec_seckey_verify env ctx (take PRIVKEY_SIZE k)"
  shows "derive_pubkey env (Some k) (Some out) compressed tr =
           (- 5, \<lparr>d_privkey = Some k, d_pubkey_out = Some out,
                  d_trace = tr @ [ContextCreate, ContextDestroy]\<rparr>)"
  using assms by (auto simp: derive_pubkey_def Let_def)

lemma derive_pubkey_code_minus_5:
  assumes "compressed = 0 \<or> compressed = 1"
    and "context_create env (length tr) = Some ctx"
    and "ec_seckey_verify env ctx (take PRIVKEY_SIZE k)"
    and "creation_fails env ctx (take PRIVKEY_SIZE k) \<or>
         serialization_fails env ctx (take PRIVKEY_SIZE k) compressed"
  shows "fst (derive_pubkey env (Some k) (Some b) compressed tr) = - 5"
  using assms
  by (auto simp: derive_pubkey_def creation_fails_def serialization_fails_def
        pubkey_len_of_def flags_of_def Let_def split: option.splits prod.splits if_splits)

lemma reaches_creationD:
  assumes "reaches_creation env tr ctx key"
  obtains ctx0 filled seed tr2 tr3 where
    "context_create env (length tr) = Some ctx0"
    "fill_random env (map (stack env) [0 ..< PRIVKEY_SIZE]) PRIVKEY_SIZE (tr @ [ContextCreate])
       = (filled, seed, tr2)"
    "filled \<noteq> 0"
    "context_randomize env ctx0 seed = Some ctx"
    "candidate_loop env ctx (map (stack env) [PRIVKEY_SIZE ..< 2 * PRIVKEY_SIZE])
       (tr2 @ [ContextRandomize]) = Some (True, key, tr3)"
proof -
  from assms obtain ctx0 where c0: "context_create env (length tr) = Some ctx0"
    unfolding reaches_creation_def by (cases "context_create env (length tr)") auto
  obtain filled seed tr2 where
    fr: "fill_random env (map (stack env) [0 ..< PRIVKEY_SIZE]) PRIVKEY_SIZE
           (tr @ [ContextCreate]) = (filled, seed, tr2)"
    by (rule prod_cases3)
  from assms c0 fr have f: "filled \<noteq> 0"
    and r: "context_randomize env ctx0 seed = Some ctx"
    and l: "case candidate_loop env ctx (map (stack env) [PRIVKEY_SIZE ..< 2 * PRIVKEY_SIZE])
                   (tr2 @ [ContextRandomize]) of
              None \<Rightarrow> False
            | Some (accepted, key', tr3) \<Rightarrow> accepted \<and> key' = key"
    unfolding reaches_creation_def by simp_all
  from l obtain tr3 where
    "candidate_loop env ctx (map (stack env) [PRIVKEY_SIZE ..< 2 * PRIVKEY_SIZE])
       (tr2 @ [ContextRandomize]) = Some (True, key, tr3)"
    by (cases "candidate_loop env ctx (map (stack env) [PRIVKEY_SIZE ..< 2 * PRIVKEY_SIZE])
                 (tr2 @ [ContextRandomize])") auto
  with c0 fr f r show thesis by (rule that)
qed

lemma generate_keys_code_minus_5:
  assumes mode: "compressed = 0 \<or> compressed = 1"
    and reach: "reaches_creation env tr ctx key"
    and fail: "creation_fails env ctx key \<or> serialization_fails env ctx key compressed"
  shows "map_option fst (generate_keys env (Some a) (Some b) compressed tr) = Some (- 5)"
proof -
  from reach obtain ctx0 filled seed tr2 tr3 where
    "context_create env (length tr) = Some ctx0"
    "fill_random env (map (stack env) [0 ..< PRIVKEY_SIZE]) PRIVKEY_SIZE (tr @ [ContextCreate])
       = (filled, seed, tr2)"
    "filled \<noteq> 0"
    "context_randomize env ctx0 seed = Some ctx"
    "candidate_loop env ctx (map (stack env) [PRIVKEY_SIZE ..< 2 * PRIVKEY_SIZE])
       (tr2 @ [ContextRandomize]) = Some (True, key, tr3)"
    by (rule reaches_creationD)
  with mode fail show ?thesis
    by (auto simp: generate_keys_def creation_fails_def serialization_fails_def
        pubkey_len_of_def flags_of_def Let_def split: option.splits prod.splits)
qed

lemma generate_keys_minus_5_cause:
  assumes "generate_keys env privkey_out pubkey_out compressed tr = Some (- 5, fr)"
  shows "\<exists>ctx key. reaches_creation env tr ctx key \<and> ec_seckey_verify env ctx key \<and>
           (creation_fails env ctx key \<or> serialization_fails env ctx key compressed)"
  using assms
  apply (simp add: generate_keys_def Let_def split: if_splits option.splits prod.splits)
   apply (auto simp: reaches_creation_def creation_fails_def serialization_fails_def
        pubkey_len_of_def flags_of_def dest!: candidate_loop_Some)
  done

text \<open>
  C3, as stated, fails. It has a private key that fails the validity predicate make
  \<^verbatim>\<open>secp256k1_wrapper_derive_pubkey\<close> return a code of its own, distinct from the codes
  of a failed point creation and of a failed serialisation. In the code all three
  returns are \<open>-5\<close>: the all-zero key, rejected by the validity check, gives the code that
  a library failing to create the point, or failing to serialise it, gives for the
  valid scalar 1.
\<close>

theorem invalid_key_code_counterexample:
  "\<not> ec_seckey_verify (env_redraw always) None (take PRIVKEY_SIZE key_zero) \<and>
   fst (derive_pubkey (env_redraw always) (Some key_zero) (Some (replicate 33 0)) 1 []) = - 5 \<and>
   creation_fails env_no_create None (take PRIVKEY_SIZE key_one) \<and>
   fst (derive_pubkey env_no_create (Some key_one) (Some (replicate 33 0)) 1 []) = - 5 \<and>
   serialization_fails env_no_serialize None (take PRIVKEY_SIZE key_one) 1 \<and>
   fst (derive_pubkey env_no_serialize (Some key_one) (Some (replicate 33 0)) 1 []) = - 5"
  by code_simp

text \<open>
  C3, amended. For non-null buffers and a mode in \<open>{0, 1}\<close>, once the context is created,
  a private key that fails the validity check makes \<^verbatim>\<open>secp256k1_wrapper_derive_pubkey\<close>
  destroy the context and return \<open>-5\<close>, with both buffers untouched; \<open>-5\<close> is also what it
  returns for a valid key when point creation or serialisation fails, so there is no
  separate code for an invalid key. On the generation path \<open>-5\<close> is returned only when
  creation or serialisation fails for a candidate that the validity check accepted,
  never for an invalid candidate.
\<close>

theorem invalid_key_returns_minus_5:
  assumes mode: "compressed = 0 \<or> compressed = 1"
  shows "(context_create env (length tr) = Some ctx \<and>
          \<not> ec_seckey_verify env ctx (take PRIVKEY_SIZE k) \<longrightarrow>
            derive_pubkey env (Some k) (Some out) compressed tr =
              (- 5, \<lparr>d_privkey = Some k, d_pubkey_out = Some out,
                     d_trace = tr @ [ContextCreate, ContextDestroy]\<rparr>)) \<and>
         (context_create env (length tr) = Some ctx \<and>
          ec_seckey_verify env ctx (take PRIVKEY_SIZE k) \<and>
          (creation_fails env ctx (take PRIVKEY_SIZE k) \<or>
           serialization_fails env ctx (take PRIVKEY_SIZE k) compressed) \<longrightarrow>
            fst (derive_pubkey env (Some k) (Some out) compressed tr) = - 5) \<and>
         (generate_keys env privkey_out pubkey_out compressed tr = Some (- 5, fr) \<longrightarrow>
            (\<exists>gctx key. reaches_creation env tr gctx key \<and> ec_seckey_verify env gctx key \<and>
               (creation_fails env gctx key \<or> serialization_fails env gctx key compressed)))"
  using mode
  by (blast intro: derive_pubkey_invalid_key derive_pubkey_code_minus_5
        generate_keys_minus_5_cause)

theorem invalid_key_returns_minus_5_witness:
  "derive_pubkey (env_redraw always) (Some key_zero) (Some (replicate 33 0)) 1 [] =
     (- 5, \<lparr>d_privkey = Some key_zero, d_pubkey_out = Some (replicate 33 0),
            d_trace = [] @ [ContextCreate, ContextDestroy]\<rparr>) \<and>
   fst (derive_pubkey env_no_serialize (Some key_one) (Some (replicate 33 0)) 1 []) = - 5 \<and>
   (\<exists>gctx key. reaches_creation env_no_create [] gctx key \<and>
      ec_seckey_verify env_no_create gctx key \<and>
      (creation_fails env_no_create gctx key \<or> serialization_fails env_no_create gctx key 1))"
proof -
  have mode: "(1 :: int) = 0 \<or> (1 :: int) = 1" by simp
  have invalid: "context_create (env_redraw always) (length ([] :: event list)) = Some None \<and>
                 \<not> ec_seckey_verify (env_redraw always) None (take PRIVKEY_SIZE key_zero)"
    by code_simp
  have failing: "context_create env_no_serialize (length ([] :: event list)) = Some None \<and>
                 ec_seckey_verify env_no_serialize None (take PRIVKEY_SIZE key_one) \<and>
                 (creation_fails env_no_serialize None (take PRIVKEY_SIZE key_one) \<or>
                  serialization_fails env_no_serialize None (take PRIVKEY_SIZE key_one) 1)"
    by code_simp
  have run: "generate_keys env_no_create (Some key_zero) (Some (replicate 33 0)) 1 [] =
               Some (- 5, frame_failed)"
    by code_simp
  from invalid_key_returns_minus_5 [OF mode, of "env_redraw always" "[]" None key_zero] invalid
  have "derive_pubkey (env_redraw always) (Some key_zero) (Some (replicate 33 0)) 1 [] =
     (- 5, \<lparr>d_privkey = Some key_zero, d_pubkey_out = Some (replicate 33 0),
            d_trace = [] @ [ContextCreate, ContextDestroy]\<rparr>)"
    by blast
  moreover
  from invalid_key_returns_minus_5 [OF mode, of env_no_serialize "[]" None key_one] failing
  have "fst (derive_pubkey env_no_serialize (Some key_one) (Some (replicate 33 0)) 1 []) = - 5"
    by blast
  moreover
  from invalid_key_returns_minus_5 [OF mode, of env_no_create "[]"] run
  have "\<exists>gctx key. reaches_creation env_no_create [] gctx key \<and>
      ec_seckey_verify env_no_create gctx key \<and>
      (creation_fails env_no_create gctx key \<or> serialization_fails env_no_create gctx key 1)"
    by blast
  ultimately show ?thesis by blast
qed

text \<open>
  C10. In both functions a failure of \<^verbatim>\<open>secp256k1_ec_pubkey_create\<close> and a failure of
  \<^verbatim>\<open>secp256k1_ec_pubkey_serialize\<close> give the same return value, \<open>-5\<close>: in
  \<^verbatim>\<open>secp256k1_wrapper_generate_keys\<close> whenever the run reaches the creation of the public
  key, in \<^verbatim>\<open>secp256k1_wrapper_derive_pubkey\<close> whenever the context was created and the
  key passed the validity check.
\<close>

theorem creation_and_serialization_failures_share_code:
  assumes mode: "compressed = 0 \<or> compressed = 1"
  shows "(reaches_creation env tr ctx key \<and>
          (creation_fails env ctx key \<or> serialization_fails env ctx key compressed) \<longrightarrow>
            map_option fst (generate_keys env (Some a) (Some b) compressed tr) = Some (- 5)) \<and>
         (context_create env (length tr) = Some dctx \<and>
          ec_seckey_verify env dctx (take PRIVKEY_SIZE k) \<and>
          (creation_fails env dctx (take PRIVKEY_SIZE k) \<or>
           serialization_fails env dctx (take PRIVKEY_SIZE k) compressed) \<longrightarrow>
            fst (derive_pubkey env (Some k) (Some b) compressed tr) = - 5)"
proof (intro conjI impI)
  assume "reaches_creation env tr ctx key \<and>
          (creation_fails env ctx key \<or> serialization_fails env ctx key compressed)"
  then have reach: "reaches_creation env tr ctx key"
    and fail: "creation_fails env ctx key \<or> serialization_fails env ctx key compressed"
    by simp_all
  show "map_option fst (generate_keys env (Some a) (Some b) compressed tr) = Some (- 5)"
    by (rule generate_keys_code_minus_5 [OF mode reach fail])
next
  assume "context_create env (length tr) = Some dctx \<and>
          ec_seckey_verify env dctx (take PRIVKEY_SIZE k) \<and>
          (creation_fails env dctx (take PRIVKEY_SIZE k) \<or>
           serialization_fails env dctx (take PRIVKEY_SIZE k) compressed)"
  then have ctx: "context_create env (length tr) = Some dctx"
    and valid: "ec_seckey_verify env dctx (take PRIVKEY_SIZE k)"
    and fail: "creation_fails env dctx (take PRIVKEY_SIZE k) \<or>
               serialization_fails env dctx (take PRIVKEY_SIZE k) compressed"
    by simp_all
  show "fst (derive_pubkey env (Some k) (Some b) compressed tr) = - 5"
    by (rule derive_pubkey_code_minus_5 [OF mode ctx valid fail])
qed

theorem creation_and_serialization_failures_share_code_witness:
  "creation_fails env_no_create (Some seed_bytes) key_one \<and>
   map_option fst (generate_keys env_no_create (Some key_zero) (Some (replicate 33 0)) 1 [])
     = Some (- 5) \<and>
   creation_fails env_no_create None (take PRIVKEY_SIZE key_one) \<and>
   fst (derive_pubkey env_no_create (Some key_one) (Some (replicate 33 0)) 1 []) = - 5 \<and>
   serialization_fails env_no_serialize (Some seed_bytes) key_one 1 \<and>
   map_option fst (generate_keys env_no_serialize (Some key_zero) (Some (replicate 33 0)) 1 [])
     = Some (- 5) \<and>
   serialization_fails env_no_serialize None (take PRIVKEY_SIZE key_one) 1 \<and>
   fst (derive_pubkey env_no_serialize (Some key_one) (Some (replicate 33 0)) 1 []) = - 5"
proof -
  have mode: "(1 :: int) = 0 \<or> (1 :: int) = 1" by simp
  have c_gen: "reaches_creation env_no_create [] (Some seed_bytes) key_one \<and>
               creation_fails env_no_create (Some seed_bytes) key_one"
    by code_simp
  have c_der: "context_create env_no_create (length ([] :: event list)) = Some None \<and>
               ec_seckey_verify env_no_create None (take PRIVKEY_SIZE key_one) \<and>
               creation_fails env_no_create None (take PRIVKEY_SIZE key_one)"
    by code_simp
  have s_gen: "reaches_creation env_no_serialize [] (Some seed_bytes) key_one \<and>
               serialization_fails env_no_serialize (Some seed_bytes) key_one 1"
    by code_simp
  have s_der: "context_create env_no_serialize (length ([] :: event list)) = Some None \<and>
               ec_seckey_verify env_no_serialize None (take PRIVKEY_SIZE key_one) \<and>
               serialization_fails env_no_serialize None (take PRIVKEY_SIZE key_one) 1"
    by code_simp
  from creation_and_serialization_failures_share_code
         [OF mode, of env_no_create "[]" "Some seed_bytes" key_one key_zero "replicate 33 0"
            None key_one]
       c_gen c_der
  have "map_option fst (generate_keys env_no_create (Some key_zero) (Some (replicate 33 0)) 1 [])
          = Some (- 5) \<and>
        fst (derive_pubkey env_no_create (Some key_one) (Some (replicate 33 0)) 1 []) = - 5"
    by blast
  moreover
  from creation_and_serialization_failures_share_code
         [OF mode, of env_no_serialize "[]" "Some seed_bytes" key_one key_zero "replicate 33 0"
            None key_one]
       s_gen s_der
  have "map_option fst (generate_keys env_no_serialize (Some key_zero) (Some (replicate 33 0)) 1 [])
          = Some (- 5) \<and>
        fst (derive_pubkey env_no_serialize (Some key_one) (Some (replicate 33 0)) 1 []) = - 5"
    by blast
  ultimately show ?thesis using c_gen c_der s_gen s_der by blast
qed

section \<open>Determinism and the round trip\<close>

















section \<open>The fallback of \<^verbatim>\<open>secp256k1_wrapper_fill_random\<close>\<close>









end
